theory Spec2Isabelle
  imports Main
begin

section \<open>Deprecation warnings (neuraxle/logging/warnings.py)\<close>

text \<open>
  The module keeps one global flag, \<open>SILENCE_WARNING\<close>, and three functions that read or
  write it. Each call of Python's \<open>warnings.warn\<close> is recorded in the state as the message
  it was given, in call order; what the standard library's warning filters then do with
  the message lies outside this module and is not part of the model.
\<close>

subsection \<open>Python values that the functions format and compare\<close>

text \<open>
  The arguments are dynamically typed. The model covers \<open>None\<close>, booleans, integers,
  strings and classes. A class is an object of its own: \<open>type_id\<close> stands for its identity,
  the next three fields are its \<open>__module__\<close>, \<open>__qualname__\<close> and \<open>__name__\<close>, and
  \<open>metaclass_is_type\<close> says whether \<open>type(cls) is type\<close> (it is not for a class with
  another metaclass, such as an abstract base class).
\<close>

record pytype =
  type_id :: nat
  type_module :: string
  type_qualname :: string
  type_name :: string
  metaclass_is_type :: bool

datatype pyval = PyNone | PyBool bool | PyInt int | PyStr string | PyType pytype

text \<open>
  Python's \<open>==\<close>: \<open>bool\<close> is a subclass of \<open>int\<close>, so \<open>True == 1\<close> and \<open>False == 0\<close>; two
  classes are equal when they are the same object, whatever their names.
\<close>

fun py_eq :: "pyval \<Rightarrow> pyval \<Rightarrow> bool" where
  "py_eq (PyBool a) (PyInt b) = ((if a then 1 else 0) = b)"
| "py_eq (PyInt a) (PyBool b) = (a = (if b then 1 else 0))"
| "py_eq (PyType c) (PyType d) = (type_id c = type_id d)"
| "py_eq a b = (a = b)"

definition py_ne :: "pyval \<Rightarrow> pyval \<Rightarrow> bool" where
  "py_ne a b = (\<not> py_eq a b)"

fun nat_str :: "nat \<Rightarrow> string" where
  "nat_str n =
     (if n < 10 then [''0123456789'' ! n]
      else nat_str (n div 10) @ [''0123456789'' ! (n mod 10)])"

definition int_str :: "int \<Rightarrow> string" where
  "int_str i = (if i < 0 then ''-'' @ nat_str (nat (- i)) else nat_str (nat i))"

text \<open>
  What an f-string field \<open>{v}\<close> renders. A class is rendered with its module and qualified
  name, the module left out for a builtin.
\<close>

fun py_str :: "pyval \<Rightarrow> string" where
  "py_str PyNone = ''None''"
| "py_str (PyBool b) = (if b then ''True'' else ''False'')"
| "py_str (PyInt i) = int_str i"
| "py_str (PyStr s) = s"
| "py_str (PyType c) =
     (if type_module c = ''builtins''
      then ''<class '' @ [CHR 0x27] @ type_qualname c @ [CHR 0x27] @ ''>''
      else ''<class '' @ [CHR 0x27] @ type_module c @ ''.'' @ type_qualname c @
           [CHR 0x27] @ ''>'')"

text \<open>
  The attribute \<open>__name__\<close>: classes have it, the other values of the model do not, and
  reading it from them raises \<open>AttributeError\<close>.
\<close>

datatype py_error = AttributeError

fun py_name :: "pyval \<Rightarrow> py_error + string" where
  "py_name (PyType c) = Inr (type_name c)"
| "py_name _ = Inl AttributeError"

text \<open>
  The receiver \<open>self\<close>: the name of its class, and its attribute \<open>replacement_class\<close>
  when it has one (\<open>None\<close> here means that the object has no such attribute).
\<close>

record pyobj =
  class_name :: string
  replacement_class_attr :: "pyval option"

subsection \<open>The module state and its functions\<close>

record module_state =
  SILENCE_WARNING :: bool
  warned :: "string list"

definition initial_state :: module_state where
  "initial_state = \<lparr>SILENCE_WARNING = False, warned = []\<rparr>"

definition warnings_warn :: "string \<Rightarrow> module_state \<Rightarrow> module_state" where
  "warnings_warn msg s = s\<lparr>warned := warned s @ [msg]\<rparr>"

definition silence_all_warnings :: "module_state \<Rightarrow> module_state" where
  "silence_all_warnings s = s\<lparr>SILENCE_WARNING := True\<rparr>"

definition deact_msg_instructions :: string where
  "deact_msg_instructions =
     ''If you want to disable these warnings, '' @
     ''call `neuraxle.logging.warnings.silence_all_warnings()`.''"

text \<open>
  \<open>warn_deprecated_class(self, replacement_class)\<close>. The test reads the receiver's
  attribute, the message reads the parameter. Adjacent string literals are joined before
  the conditional expression is read, so the message is the first two sentences when
  \<open>replacement_class.__name__ is not None\<close> and the instructions alone otherwise.
\<close>

definition warn_deprecated_class ::
  "pyobj \<Rightarrow> pyval \<Rightarrow> module_state \<Rightarrow> (py_error + pyobj) \<times> module_state" where
  "warn_deprecated_class self replacement_class s =
     (if \<not> SILENCE_WARNING s then
        (case replacement_class_attr self of
           None \<Rightarrow> (Inl AttributeError, s)
         | Some attr \<Rightarrow>
             if attr \<noteq> PyNone then
               (case py_name replacement_class of
                  Inl e \<Rightarrow> (Inl e, s)
                | Inr n \<Rightarrow>
                    (Inr self,
                     warnings_warn
                       (''The class `'' @ class_name self @ ''` is deprecated. '' @
                        ''Please consider using the class `'' @ n @ ''` instead. '') s))
             else (Inr self, s))
      else (Inr self, s))"

text \<open>
  \<open>warn_deprecated_arg(self, arg_name, default_value, value, replacement_argument_name,
  replacement_class=None)\<close>. A \<open>replacement_class\<close> whose type is exactly \<open>type\<close> is
  replaced by its name first; any other value, a class with another metaclass included,
  is formatted as it is. The conditional expression again splits the joined literals: with a
  replacement class the message ends after the class, without one it is only
  \<open>instead.\<close> and the instructions.
\<close>

definition warn_deprecated_arg ::
  "pyobj \<Rightarrow> pyval \<Rightarrow> pyval \<Rightarrow> pyval \<Rightarrow> pyval \<Rightarrow> pyval \<Rightarrow> module_state
     \<Rightarrow> (py_error + pyobj) \<times> module_state" where
  "warn_deprecated_arg self arg_name default_value val replacement_argument_name
       replacement_class s =
     (if \<not> SILENCE_WARNING s \<and> py_ne default_value val then
        (let rc = (case replacement_class of
                     PyType c \<Rightarrow> if metaclass_is_type c then PyStr (type_name c) else PyType c
                   | v \<Rightarrow> v) in
         (Inr self,
          warnings_warn
            (if rc \<noteq> PyNone then
               ''Argument `'' @ py_str arg_name @ ''='' @ py_str val @ ''` for class `'' @
               class_name self @ ''` is deprecated. '' @
               ''Please consider using `'' @ py_str replacement_argument_name @ ''` '' @
               ''or the class `'' @ py_str rc @ ''` ''
             else ''instead. '' @ deact_msg_instructions) s))
      else (Inr self, s))"

text \<open>Two distinct classes that carry the same name, and a receiver, for the examples.\<close>

definition NEW_CLASS :: pytype where
  "NEW_CLASS =
     \<lparr>type_id = 1, type_module = ''neuraxle.base'', type_qualname = ''New'',
      type_name = ''New'', metaclass_is_type = True\<rparr>"

definition OTHER_NEW_CLASS :: pytype where
  "OTHER_NEW_CLASS =
     \<lparr>type_id = 2, type_module = ''neuraxle.pipeline'', type_qualname = ''New'',
      type_name = ''New'', metaclass_is_type = True\<rparr>"

definition AUTOML_OBJECT :: pyobj where
  "AUTOML_OBJECT = \<lparr>class_name = ''AutoML'', replacement_class_attr = None\<rparr>"

definition OLD_OBJECT :: pyobj where
  "OLD_OBJECT = \<lparr>class_name = ''Old'', replacement_class_attr = Some (PyType NEW_CLASS)\<rparr>"

subsection \<open>Sequences of calls into the module\<close>

text \<open>
  Everything the module defines, as the calls a client can make. A call that raises leaves
  the state as it was.
\<close>

datatype call =
    Silence
  | WarnClass pyobj pyval
  | WarnArg pyobj pyval pyval pyval pyval pyval
  | DeactMsg

fun exec :: "call \<Rightarrow> module_state \<Rightarrow> module_state" where
  "exec Silence s = silence_all_warnings s"
| "exec (WarnClass self rc) s = snd (warn_deprecated_class self rc s)"
| "exec (WarnArg self a d v r rc) s = snd (warn_deprecated_arg self a d v r rc s)"
| "exec DeactMsg s = s"

fun run :: "call list \<Rightarrow> module_state \<Rightarrow> module_state" where
  "run [] s = s"
| "run (c # cs) s = run cs (exec c s)"

section \<open>The experiment tree and its indexed access\<close>

text \<open>
  The tests under \<open>testing/\<close> build a tree of dataclasses and index it by a scoped
  location. The classes themselves (\<open>neuraxle.metaopt.data.vanilla\<close>) are not among the
  source files at hand, so the definitions of this section follow the specification's data
  model (its sections 3, 4.2, 4.5 and 7) and the constructor calls of
  \<open>testing/metaopt/test_repo_dataclasses.py\<close>.
\<close>

text \<open>Modelled from the spec: the error taxonomy of section 7; the exception classes
  are not in the source files.\<close>

datatype repo_error =
    InvalidLocationError
  | NotFoundError
  | InvalidTransitionError
  | SerializationError
  | ConcurrentWriteConflict

text \<open>Modelled from the spec: \<open>TrialStatus\<close> (imported by the test from
  \<open>neuraxle.base\<close>, which is missing), with the five states of section 4.5.\<close>

datatype TrialStatus = PLANNED | RUNNING | SUCCESS | FAILED | ABORTED

text \<open>Modelled from the spec: an identifier of one level of a \<open>ScopedLocation\<close>, a
  string (project, client, metric) or an integer (round, trial, split); the class
  \<open>ScopedLocation\<close> is missing. A location is the ordered sequence of its identifiers,
  what the test reads with \<open>as_list()\<close>, and its \<open>len\<close> is the length of that sequence.\<close>

datatype ident = Name string | Num int

type_synonym ScopedLocation = "ident list"

text \<open>Modelled from the spec: the record kinds of the table in section 3, with the fields
  the test's constructor calls name; the dataclasses are missing. The metric values of the
  test are Python integers. Timestamps are readings of a clock, absent until recorded.\<close>

record MetricResultsDataclass =
  metric_name :: string
  validation_values :: "int list"
  train_values :: "int list"
  higher_score_is_better :: bool

record BaseTrialDataclassMixin =
  hyperparams :: "(string \<times> int) list"
  status :: TrialStatus
  start_time :: "nat option"
  end_time :: "nat option"

record TrialSplitDataclass = BaseTrialDataclassMixin +
  split_number :: int
  metric_results :: "(string \<times> MetricResultsDataclass) list"

record TrialDataclass = BaseTrialDataclassMixin +
  trial_number :: int
  validation_splits :: "TrialSplitDataclass list"

record RoundDataclass =
  round_number :: int
  trials :: "TrialDataclass list"

record ClientDataclass =
  client_name :: string
  main_metric_name :: string
  rounds :: "RoundDataclass list"

record ProjectDataclass =
  project_name :: string
  clients :: "(string \<times> ClientDataclass) list"

record RootDataclass =
  projects :: "(string \<times> ProjectDataclass) list"

text \<open>Modelled from the spec: \<open>BaseDataclass\<close>, the common type of the seven kinds, as the
  tagged variant that section 9 describes; the class is missing.\<close>

datatype BaseDataclass =
    Root RootDataclass
  | Project ProjectDataclass
  | Client ClientDataclass
  | Round RoundDataclass
  | Trial TrialDataclass
  | TrialSplit TrialSplitDataclass
  | MetricResults MetricResultsDataclass

text \<open>Modelled from the spec: the fixed mapping from kind to depth of section 4.1
  (Root = 0, ..., MetricResults = 6); the table \<open>dataclass_2_id_attr\<close> that orders the kinds
  is missing.\<close>

fun depth_of :: "BaseDataclass \<Rightarrow> nat" where
  "depth_of (Root _) = 0"
| "depth_of (Project _) = 1"
| "depth_of (Client _) = 2"
| "depth_of (Round _) = 3"
| "depth_of (Trial _) = 4"
| "depth_of (TrialSplit _) = 5"
| "depth_of (MetricResults _) = 6"

text \<open>Modelled from the spec: \<open>get_id()\<close>, the key a node uses in its parent (column
  \<open>Key within parent\<close> of section 3); the method is missing. The root has no key.\<close>

fun get_id :: "BaseDataclass \<Rightarrow> ident option" where
  "get_id (Root _) = None"
| "get_id (Project p) = Some (Name (project_name p))"
| "get_id (Client c) = Some (Name (client_name c))"
| "get_id (Round r) = Some (Num (round_number r))"
| "get_id (Trial t) = Some (Num (trial_number t))"
| "get_id (TrialSplit s) = Some (Num (split_number s))"
| "get_id (MetricResults m) = Some (Name (metric_name m))"

text \<open>Modelled from the spec: the child collection of a node (column
  \<open>Children collection\<close> of section 3), each child under its key: a mapping keeps the key
  it stores the child under, an ordered sequence keys each element by its number.\<close>

fun children :: "BaseDataclass \<Rightarrow> (ident \<times> BaseDataclass) list" where
  "children (Root r) = map (\<lambda>(k, p). (Name k, Project p)) (projects r)"
| "children (Project p) = map (\<lambda>(k, c). (Name k, Client c)) (clients p)"
| "children (Client c) = map (\<lambda>r. (Num (round_number r), Round r)) (rounds c)"
| "children (Round r) = map (\<lambda>t. (Num (trial_number t), Trial t)) (trials r)"
| "children (Trial t) = map (\<lambda>s. (Num (split_number s), TrialSplit s)) (validation_splits t)"
| "children (TrialSplit s) = map (\<lambda>(k, m). (Name k, MetricResults m)) (metric_results s)"
| "children (MetricResults _) = []"

text \<open>Modelled from the spec: indexed access \<open>node[location]\<close> of section 4.2
  (\<open>__getitem__\<close> is missing): the location is resolved key by key, and a key that its
  parent's child collection does not hold fails with \<open>NotFoundError\<close>.\<close>

fun getitem :: "BaseDataclass \<Rightarrow> ScopedLocation \<Rightarrow> repo_error + BaseDataclass" where
  "getitem n [] = Inr n"
| "getitem n (k # ks) =
     (case map_of (children n) k of
        None \<Rightarrow> Inl NotFoundError
      | Some c \<Rightarrow> getitem c ks)"

text \<open>Modelled from the spec: \<open>start()\<close> of section 4.5 (the method is missing):
  PLANNED to RUNNING, recording the clock's reading; it fails from any other state.\<close>

definition start ::
  "nat \<Rightarrow> 'a BaseTrialDataclassMixin_scheme \<Rightarrow> repo_error + 'a BaseTrialDataclassMixin_scheme"
  where
  "start now d =
     (if status d = PLANNED then Inr (d\<lparr>status := RUNNING, start_time := Some now\<rparr>)
      else Inl InvalidTransitionError)"

text \<open>Modelled from the spec: \<open>end(outcome)\<close> of section 4.5 (the method is missing):
  from RUNNING to the outcome, recording the clock's reading; it fails from any other
  state.\<close>

definition end_with ::
  "nat \<Rightarrow> TrialStatus \<Rightarrow> 'a BaseTrialDataclassMixin_scheme
     \<Rightarrow> repo_error + 'a BaseTrialDataclassMixin_scheme" where
  "end_with now outcome d =
     (if status d = RUNNING then Inr (d\<lparr>status := outcome, end_time := Some now\<rparr>)
      else Inl InvalidTransitionError)"

text \<open>Modelled from the spec: \<open>.start().end(outcome)\<close> as the test chains them, the second
  call made only when the first returned.\<close>

definition start_then_end ::
  "nat \<Rightarrow> nat \<Rightarrow> TrialStatus \<Rightarrow> 'a BaseTrialDataclassMixin_scheme
     \<Rightarrow> repo_error + 'a BaseTrialDataclassMixin_scheme" where
  "start_then_end t0 t1 outcome d =
     (case start t0 d of Inl e \<Rightarrow> Inl e | Inr d' \<Rightarrow> end_with t1 outcome d')"

subsection \<open>The example tree of the dataclass tests\<close>

text \<open>Modelled from the spec: the constants \<open>DEFAULT_PROJECT\<close> and \<open>DEFAULT_CLIENT\<close>, which
  the test imports from the missing module; section 8 gives their values.\<close>

definition DEFAULT_PROJECT :: string where
  "DEFAULT_PROJECT = ''default_project''"

definition DEFAULT_CLIENT :: string where
  "DEFAULT_CLIENT = ''default_client''"

definition SOME_METRIC_NAME :: string where
  "SOME_METRIC_NAME = ''MAE''"

definition SOME_METRIC_RESULTS_DATACLASS :: MetricResultsDataclass where
  "SOME_METRIC_RESULTS_DATACLASS =
     \<lparr>metric_name = SOME_METRIC_NAME,
      validation_values = [3, 2, 1],
      train_values = [2, 1, 0],
      higher_score_is_better = False\<rparr>"

text \<open>
  A new trial or split is PLANNED and has no timestamps; \<open>BASE_TRIAL_ARGS\<close> gives both
  the empty \<open>HyperparameterSamples()\<close>. \<open>as_named_odict(x)\<close> is the ordered mapping that
  holds \<open>x\<close> under its own id. The parameters are the four readings of the clock.
\<close>

definition SOME_TRIAL_SPLIT_DATACLASS :: "nat \<Rightarrow> nat \<Rightarrow> repo_error + TrialSplitDataclass" where
  "SOME_TRIAL_SPLIT_DATACLASS t0 t1 =
     start_then_end t0 t1 SUCCESS
       \<lparr>hyperparams = [], status = PLANNED, start_time = None, end_time = None,
        split_number = 0,
        metric_results =
          [(metric_name SOME_METRIC_RESULTS_DATACLASS, SOME_METRIC_RESULTS_DATACLASS)]\<rparr>"

definition SOME_TRIAL_DATACLASS ::
  "nat \<Rightarrow> nat \<Rightarrow> nat \<Rightarrow> nat \<Rightarrow> repo_error + TrialDataclass" where
  "SOME_TRIAL_DATACLASS t0 t1 t2 t3 =
     (case SOME_TRIAL_SPLIT_DATACLASS t0 t1 of
        Inl e \<Rightarrow> Inl e
      | Inr split \<Rightarrow>
          start_then_end t2 t3 SUCCESS
            \<lparr>hyperparams = [], status = PLANNED, start_time = None, end_time = None,
             trial_number = 0,
             validation_splits = [split]\<rparr>)"

definition SOME_ROUND_DATACLASS ::
  "nat \<Rightarrow> nat \<Rightarrow> nat \<Rightarrow> nat \<Rightarrow> repo_error + RoundDataclass" where
  "SOME_ROUND_DATACLASS t0 t1 t2 t3 =
     (case SOME_TRIAL_DATACLASS t0 t1 t2 t3 of
        Inl e \<Rightarrow> Inl e
      | Inr trial \<Rightarrow> Inr \<lparr>round_number = 0, trials = [trial]\<rparr>)"

definition SOME_CLIENT_DATACLASS ::
  "nat \<Rightarrow> nat \<Rightarrow> nat \<Rightarrow> nat \<Rightarrow> repo_error + ClientDataclass" where
  "SOME_CLIENT_DATACLASS t0 t1 t2 t3 =
     (case SOME_ROUND_DATACLASS t0 t1 t2 t3 of
        Inl e \<Rightarrow> Inl e
      | Inr round \<Rightarrow>
          Inr \<lparr>client_name = DEFAULT_CLIENT,
               main_metric_name = SOME_METRIC_NAME,
               rounds = [round]\<rparr>)"

definition SOME_PROJECT_DATACLASS ::
  "nat \<Rightarrow> nat \<Rightarrow> nat \<Rightarrow> nat \<Rightarrow> repo_error + ProjectDataclass" where
  "SOME_PROJECT_DATACLASS t0 t1 t2 t3 =
     (case SOME_CLIENT_DATACLASS t0 t1 t2 t3 of
        Inl e \<Rightarrow> Inl e
      | Inr client \<Rightarrow>
          Inr \<lparr>project_name = DEFAULT_PROJECT,
               clients = [(client_name client, client)]\<rparr>)"

definition SOME_ROOT_DATACLASS ::
  "nat \<Rightarrow> nat \<Rightarrow> nat \<Rightarrow> nat \<Rightarrow> repo_error + RootDataclass" where
  "SOME_ROOT_DATACLASS t0 t1 t2 t3 =
     (case SOME_PROJECT_DATACLASS t0 t1 t2 t3 of
        Inl e \<Rightarrow> Inl e
      | Inr project \<Rightarrow> Inr \<lparr>projects = [(project_name project, project)]\<rparr>)"

definition SOME_FULL_SCOPED_LOCATION :: ScopedLocation where
  "SOME_FULL_SCOPED_LOCATION =
     [Name DEFAULT_PROJECT, Name DEFAULT_CLIENT, Num 0, Num 0, Num 0, Name SOME_METRIC_NAME]"

text \<open>A root whose only project has no client yet: a node that is found but empty.\<close>

definition ROOT_WITH_EMPTY_PROJECT :: RootDataclass where
  "ROOT_WITH_EMPTY_PROJECT =
     \<lparr>projects = [(DEFAULT_PROJECT, \<lparr>project_name = DEFAULT_PROJECT, clients = []\<rparr>)]\<rparr>"

text \<open>
  A root whose project holds two clients: the first has one round and no trial yet, the
  second has no round.
\<close>

definition CLIENT_X :: ClientDataclass where
  "CLIENT_X =
     \<lparr>client_name = ''x'', main_metric_name = SOME_METRIC_NAME,
      rounds = [\<lparr>round_number = 0, trials = []\<rparr>]\<rparr>"

definition CLIENT_Y :: ClientDataclass where
  "CLIENT_Y = \<lparr>client_name = ''y'', main_metric_name = SOME_METRIC_NAME, rounds = []\<rparr>"

definition ROOT_WITH_TWO_CLIENTS :: RootDataclass where
  "ROOT_WITH_TWO_CLIENTS =
     \<lparr>projects =
        [(DEFAULT_PROJECT,
          \<lparr>project_name = DEFAULT_PROJECT,
           clients = [(client_name CLIENT_X, CLIENT_X), (client_name CLIENT_Y, CLIENT_Y)]\<rparr>)]\<rparr>"

section \<open>Properties of the deprecation warnings\<close>

lemma exec_silenced:
  "SILENCE_WARNING s \<Longrightarrow> exec c s = (if c = Silence then silence_all_warnings s else s)"
  by (cases c) (simp_all add: warn_deprecated_class_def warn_deprecated_arg_def)

lemma silence_idem: "SILENCE_WARNING s \<Longrightarrow> silence_all_warnings s = s"
  by (simp add: silence_all_warnings_def)

lemma run_silenced: "SILENCE_WARNING s \<Longrightarrow> run cs s = s"
  by (induction cs arbitrary: s) (simp_all add: exec_silenced silence_idem)

text \<open>
  Claim C9. \<open>warn_deprecated_arg\<close> calls \<open>warnings.warn\<close> exactly when the flag is off and
  \<open>default_value != value\<close>; it then adds one message and changes nothing else, otherwise
  it leaves the state as it was; in both cases it returns the receiver it was given.
\<close>

theorem warn_deprecated_arg_emits_iff:
  "fst (warn_deprecated_arg self a d v r rc s) = Inr self \<and>
   ((\<exists>msg. snd (warn_deprecated_arg self a d v r rc s) = warnings_warn msg s)
      = (\<not> SILENCE_WARNING s \<and> py_ne d v)) \<and>
   ((snd (warn_deprecated_arg self a d v r rc s) = s)
      = (SILENCE_WARNING s \<or> py_eq d v))"
proof -
  have neq: "warnings_warn msg s \<noteq> s" for msg
  proof
    assume "warnings_warn msg s = s"
    then have "warned (warnings_warn msg s) = warned s" by simp
    then show False by (simp add: warnings_warn_def)
  qed
  show ?thesis
  proof (cases "\<not> SILENCE_WARNING s \<and> py_ne d v")
    case True
    then show ?thesis
      using neq by (auto simp: warn_deprecated_arg_def Let_def py_ne_def)
  next
    case False
    then show ?thesis
      using neq neq [symmetric] by (auto simp: warn_deprecated_arg_def py_ne_def)
  qed
qed

theorem warn_deprecated_arg_emits_iff_witness:
  "fst (warn_deprecated_arg AUTOML_OBJECT
          (PyStr ''n_trial'') (PyInt 10) (PyInt 20) (PyStr ''n_trials'') PyNone initial_state)
     = Inr AUTOML_OBJECT \<and>
   snd (warn_deprecated_arg AUTOML_OBJECT
          (PyStr ''n_trial'') (PyInt 10) (PyInt 20) (PyStr ''n_trials'') PyNone initial_state)
     \<noteq> initial_state \<and>
   snd (warn_deprecated_arg AUTOML_OBJECT
          (PyStr ''flag'') (PyBool True) (PyInt 1) (PyStr ''flags'') PyNone initial_state)
     = initial_state \<and>
   snd (warn_deprecated_arg AUTOML_OBJECT
          (PyStr ''cls'') (PyType NEW_CLASS) (PyType OTHER_NEW_CLASS) (PyStr ''klass'') PyNone
          initial_state)
     \<noteq> initial_state \<and>
   snd (warn_deprecated_arg AUTOML_OBJECT
          (PyStr ''cls'') (PyType NEW_CLASS) (PyType NEW_CLASS) (PyStr ''klass'') PyNone
          initial_state)
     = initial_state"
  using
    warn_deprecated_arg_emits_iff [of AUTOML_OBJECT
      "PyStr ''n_trial''" "PyInt 10" "PyInt 20" "PyStr ''n_trials''" PyNone initial_state]
    warn_deprecated_arg_emits_iff [of AUTOML_OBJECT
      "PyStr ''flag''" "PyBool True" "PyInt 1" "PyStr ''flags''" PyNone initial_state]
    warn_deprecated_arg_emits_iff [of AUTOML_OBJECT
      "PyStr ''cls''" "PyType NEW_CLASS" "PyType OTHER_NEW_CLASS" "PyStr ''klass''" PyNone
      initial_state]
    warn_deprecated_arg_emits_iff [of AUTOML_OBJECT
      "PyStr ''cls''" "PyType NEW_CLASS" "PyType NEW_CLASS" "PyStr ''klass''" PyNone
      initial_state]
  by (simp add: initial_state_def py_ne_def NEW_CLASS_def OTHER_NEW_CLASS_def)

text \<open>
  Claim C10. Once \<open>silence_all_warnings\<close> has run, every later sequence of calls into the
  module, whatever their arguments, leaves the flag set and records no further warning;
  and each of the two warning functions returns its receiver without raising.
\<close>

theorem silenced_forever:
  "SILENCE_WARNING (run cs (silence_all_warnings s)) \<and>
   warned (run cs (silence_all_warnings s)) = warned s \<and>
   warn_deprecated_class self rc (run cs (silence_all_warnings s))
     = (Inr self, run cs (silence_all_warnings s)) \<and>
   warn_deprecated_arg self a d v r rc (run cs (silence_all_warnings s))
     = (Inr self, run cs (silence_all_warnings s))"
proof -
  have on: "SILENCE_WARNING (silence_all_warnings s)"
    by (simp add: silence_all_warnings_def)
  have same: "run cs (silence_all_warnings s) = silence_all_warnings s"
    using on by (rule run_silenced)
  show ?thesis
    using on
    by (simp add: same warn_deprecated_class_def warn_deprecated_arg_def)
       (simp add: silence_all_warnings_def)
qed

theorem silenced_forever_witness:
  "warned (run [WarnArg AUTOML_OBJECT
                  (PyStr ''n_trial'') (PyInt 10) (PyInt 20) (PyStr ''n_trials'') PyNone,
                WarnClass OLD_OBJECT (PyType NEW_CLASS)]
             (silence_all_warnings initial_state)) = [] \<and>
   length (warned (run [WarnArg AUTOML_OBJECT
                  (PyStr ''n_trial'') (PyInt 10) (PyInt 20) (PyStr ''n_trials'') PyNone,
                WarnClass OLD_OBJECT (PyType NEW_CLASS)]
             initial_state)) = 2"
  using silenced_forever [of
      "[WarnArg AUTOML_OBJECT
          (PyStr ''n_trial'') (PyInt 10) (PyInt 20) (PyStr ''n_trials'') PyNone,
        WarnClass OLD_OBJECT (PyType NEW_CLASS)]" initial_state]
  by (simp add: initial_state_def warn_deprecated_arg_def warn_deprecated_class_def
      warnings_warn_def py_ne_def OLD_OBJECT_def AUTOML_OBJECT_def NEW_CLASS_def)

section \<open>Properties of indexed access\<close>

lemma children_depth:
  "map_of (children n) k = Some c \<Longrightarrow> depth_of c = Suc (depth_of n)"
  by (cases n) (auto dest!: map_of_SomeD)

lemma getitem_depth:
  "getitem n ks = Inr m \<Longrightarrow> depth_of m = depth_of n + length ks"
  by (induction ks arbitrary: n) (auto split: option.splits dest: children_depth)

lemma getitem_error: "getitem n ks = Inl e \<Longrightarrow> e = NotFoundError"
  by (induction ks arbitrary: n) (auto split: option.splits)

lemma getitem_append:
  "getitem n (p @ q) = (case getitem n p of Inl e \<Rightarrow> Inl e | Inr m \<Rightarrow> getitem m q)"
  by (induction p arbitrary: n) (auto split: option.splits)

lemma not_found_has_absent_key:
  "getitem n ks = Inl NotFoundError \<Longrightarrow>
   \<exists>p k rest parent. ks = p @ k # rest \<and> getitem n p = Inr parent \<and>
      map_of (children parent) k = None"
proof (induction ks arbitrary: n)
  case Nil
  then show ?case by simp
next
  case (Cons k ks)
  show ?case
  proof (cases "map_of (children n) k")
    case None
    then have "k # ks = [] @ k # ks \<and> getitem n [] = Inr n \<and> map_of (children n) k = None"
      by simp
    then show ?thesis by blast
  next
    case (Some c)
    with Cons.prems have "getitem c ks = Inl NotFoundError" by simp
    from Cons.IH [OF this] obtain p k' rest parent where
      h: "ks = p @ k' # rest" "getitem c p = Inr parent" "map_of (children parent) k' = None"
      by blast
    from h Some have "k # ks = (k # p) @ k' # rest \<and> getitem n (k # p) = Inr parent \<and>
        map_of (children parent) k' = None"
      by simp
    then show ?thesis by blast
  qed
qed

lemma absent_key_not_found:
  "getitem n p = Inr parent \<Longrightarrow> map_of (children parent) k = None \<Longrightarrow>
   getitem n (p @ k # rest) = Inl NotFoundError"
  by (simp add: getitem_append)

lemma getitem_chain:
  "(getitem n loc = Inr m) =
     (\<exists>ns. length ns = length loc \<and>
        (\<forall>i<length loc. map_of (children ((n # ns) ! i)) (loc ! i) = Some (ns ! i)) \<and>
        m = last (n # ns))"
proof (induction loc arbitrary: n)
  case Nil
  then show ?case by auto
next
  case (Cons k ks)
  show ?case
  proof
    assume a: "getitem n (k # ks) = Inr m"
    then obtain c where c: "map_of (children n) k = Some c" "getitem c ks = Inr m"
      by (auto split: option.splits)
    from c(2) Cons.IH [of c] obtain ns where
      ns: "length ns = length ks"
          "\<forall>i<length ks. map_of (children ((c # ns) ! i)) (ks ! i) = Some (ns ! i)"
          "m = last (c # ns)"
      by blast
    have "\<forall>i<length (k # ks).
            map_of (children ((n # c # ns) ! i)) ((k # ks) ! i) = Some ((c # ns) ! i)"
    proof (intro allI impI)
      fix i assume "i < length (k # ks)"
      then show "map_of (children ((n # c # ns) ! i)) ((k # ks) ! i) = Some ((c # ns) ! i)"
        using c(1) ns(2) by (cases i) auto
    qed
    moreover have "length (c # ns) = length (k # ks)" using ns(1) by simp
    moreover have "m = last (n # c # ns)" using ns(3) by simp
    ultimately show "\<exists>ns. length ns = length (k # ks) \<and>
        (\<forall>i<length (k # ks). map_of (children ((n # ns) ! i)) ((k # ks) ! i) = Some (ns ! i)) \<and>
        m = last (n # ns)"
      by blast
  next
    assume "\<exists>ns. length ns = length (k # ks) \<and>
        (\<forall>i<length (k # ks). map_of (children ((n # ns) ! i)) ((k # ks) ! i) = Some (ns ! i)) \<and>
        m = last (n # ns)"
    then obtain ns where
      ns: "length ns = length (k # ks)"
          "\<forall>i<length (k # ks). map_of (children ((n # ns) ! i)) ((k # ks) ! i) = Some (ns ! i)"
          "m = last (n # ns)"
      by blast
    from ns(1) obtain c cs where cs: "ns = c # cs" by (cases ns) auto
    from ns(2) cs have c: "map_of (children n) k = Some c" by fastforce
    have "\<forall>i<length ks. map_of (children ((c # cs) ! i)) (ks ! i) = Some (cs ! i)"
    proof (intro allI impI)
      fix i assume "i < length ks"
      then have "Suc i < length (k # ks)" by simp
      with ns(2) have "map_of (children ((n # ns) ! Suc i)) ((k # ks) ! Suc i) = Some (ns ! Suc i)"
        by blast
      then show "map_of (children ((c # cs) ! i)) (ks ! i) = Some (cs ! i)"
        using cs by simp
    qed
    moreover have "length cs = length ks" using ns(1) cs by simp
    moreover have "m = last (c # cs)" using ns(3) cs by simp
    ultimately have "getitem c ks = Inr m" using Cons.IH [of c] by blast
    with c show "getitem n (k # ks) = Inr m" by simp
  qed
qed

lemma getitem_snoc:
  "getitem n (p @ [k]) =
     (case getitem n p of
        Inl e \<Rightarrow> Inl e
      | Inr parent \<Rightarrow>
          (case map_of (children parent) k of
             None \<Rightarrow> Inl NotFoundError
           | Some c \<Rightarrow> Inr c))"
  by (simp add: getitem_append split: sum.splits option.splits)

lemma getitem_not_found_iff_no_chain:
  "(getitem n loc = Inl NotFoundError) =
     (\<not> (\<exists>ns. length ns = length loc \<and>
        (\<forall>i<length loc. map_of (children ((n # ns) ! i)) (loc ! i) = Some (ns ! i))))"
proof -
  have "(getitem n loc = Inl NotFoundError) = (\<not> (\<exists>m. getitem n loc = Inr m))"
    using getitem_error [of n loc] by (cases "getitem n loc") auto
  also have "\<dots> = (\<not> (\<exists>ns. length ns = length loc \<and>
        (\<forall>i<length loc. map_of (children ((n # ns) ! i)) (loc ! i) = Some (ns ! i))))"
    by (simp add: getitem_chain)
  finally show ?thesis .
qed

text \<open>
  Claim C2. For every root and every location, indexing returns a node exactly when every
  key of the location exists: when there is a chain of nodes, one per key, each stored in
  the child collection of the node before it (the root first) under that key; the node
  returned is then the last of the chain, the node at the location's depth. When no such
  chain exists, that is when some key is absent from the child collection of the node that
  the keys before it lead to, indexing fails with \<open>NotFoundError\<close>, and with no other
  error. Indexing by no key returns the root, and one more key at the end of a location
  looks that key up in the child collection of the node the location leads to. A child
  that is present is returned also when its own child collection is empty; only a step
  below it fails.
\<close>

theorem getitem_resolves:
  "(getitem (Root r) loc = Inr n) =
     (\<exists>ns. length ns = length loc \<and>
        (\<forall>i<length loc. map_of (children ((Root r # ns) ! i)) (loc ! i) = Some (ns ! i)) \<and>
        n = last (Root r # ns)) \<and>
   (getitem (Root r) loc = Inl NotFoundError) =
     (\<not> (\<exists>ns. length ns = length loc \<and>
        (\<forall>i<length loc. map_of (children ((Root r # ns) ! i)) (loc ! i) = Some (ns ! i)))) \<and>
   getitem (Root r) [] = Inr (Root r) \<and>
   getitem (Root r) (loc @ [key]) =
     (case getitem (Root r) loc of
        Inl e \<Rightarrow> Inl e
      | Inr node \<Rightarrow>
          (case map_of (children node) key of
             None \<Rightarrow> Inl NotFoundError
           | Some c \<Rightarrow> Inr c)) \<and>
   (getitem (Root r) loc = Inl NotFoundError) =
     (\<exists>p k rest parent. loc = p @ k # rest \<and> getitem (Root r) p = Inr parent \<and>
        map_of (children parent) k = None) \<and>
   (getitem (Root r) loc \<noteq> Inl NotFoundError \<longrightarrow>
     (\<exists>n. getitem (Root r) loc = Inr n \<and> depth_of n = length loc)) \<and>
   (map_of (children parent) k = Some child \<longrightarrow>
     getitem parent [k] = Inr child \<and>
     (children child = [] \<longrightarrow> getitem parent [k, k'] = Inl NotFoundError))"
proof (intro conjI)
  show "(getitem (Root r) loc = Inr n) =
     (\<exists>ns. length ns = length loc \<and>
        (\<forall>i<length loc. map_of (children ((Root r # ns) ! i)) (loc ! i) = Some (ns ! i)) \<and>
        n = last (Root r # ns))"
    by (rule getitem_chain)
next
  show "(getitem (Root r) loc = Inl NotFoundError) =
     (\<not> (\<exists>ns. length ns = length loc \<and>
        (\<forall>i<length loc. map_of (children ((Root r # ns) ! i)) (loc ! i) = Some (ns ! i))))"
    by (rule getitem_not_found_iff_no_chain)
next
  show "getitem (Root r) [] = Inr (Root r)"
    by simp
next
  show "getitem (Root r) (loc @ [key]) =
     (case getitem (Root r) loc of
        Inl e \<Rightarrow> Inl e
      | Inr node \<Rightarrow>
          (case map_of (children node) key of
             None \<Rightarrow> Inl NotFoundError
           | Some c \<Rightarrow> Inr c))"
    by (rule getitem_snoc)
next
  show "(getitem (Root r) loc = Inl NotFoundError) =
     (\<exists>p k rest parent. loc = p @ k # rest \<and> getitem (Root r) p = Inr parent \<and>
        map_of (children parent) k = None)"
    using not_found_has_absent_key absent_key_not_found by blast
next
  show "getitem (Root r) loc \<noteq> Inl NotFoundError \<longrightarrow>
     (\<exists>n. getitem (Root r) loc = Inr n \<and> depth_of n = length loc)"
  proof
    assume nf: "getitem (Root r) loc \<noteq> Inl NotFoundError"
    show "\<exists>n. getitem (Root r) loc = Inr n \<and> depth_of n = length loc"
    proof (cases "getitem (Root r) loc")
      case (Inl e)
      with nf getitem_error show ?thesis by blast
    next
      case (Inr n)
      with getitem_depth [OF Inr] show ?thesis by simp
    qed
  qed
next
  show "map_of (children parent) k = Some child \<longrightarrow>
     getitem parent [k] = Inr child \<and>
     (children child = [] \<longrightarrow> getitem parent [k, k'] = Inl NotFoundError)"
    by simp
qed

theorem getitem_resolves_witness:
  "getitem (Root ROOT_WITH_EMPTY_PROJECT) [Name DEFAULT_PROJECT]
     = Inr (Project \<lparr>project_name = DEFAULT_PROJECT, clients = []\<rparr>) \<and>
   depth_of (Project \<lparr>project_name = DEFAULT_PROJECT, clients = []\<rparr>)
     = length [Name DEFAULT_PROJECT] \<and>
   getitem (Root ROOT_WITH_EMPTY_PROJECT) [Name DEFAULT_PROJECT, Name DEFAULT_CLIENT]
     = Inl NotFoundError \<and>
   getitem (Root ROOT_WITH_EMPTY_PROJECT) [Name ''other'']
     = Inl NotFoundError \<and>
   getitem (Root ROOT_WITH_TWO_CLIENTS) [Name DEFAULT_PROJECT, Name ''x'']
     = Inr (Client CLIENT_X) \<and>
   getitem (Root ROOT_WITH_TWO_CLIENTS) [Name DEFAULT_PROJECT, Name ''y'']
     = Inr (Client CLIENT_Y) \<and>
   getitem (Root ROOT_WITH_TWO_CLIENTS) [Name DEFAULT_PROJECT, Name ''x'', Num 0]
     = Inr (Round \<lparr>round_number = 0, trials = []\<rparr>) \<and>
   getitem (Root ROOT_WITH_TWO_CLIENTS) [Name DEFAULT_PROJECT, Name ''y'', Num 0]
     = Inl NotFoundError"
  using
    getitem_resolves [where r = ROOT_WITH_EMPTY_PROJECT and loc = "[Name DEFAULT_PROJECT]"
      and n = "Project \<lparr>project_name = DEFAULT_PROJECT, clients = []\<rparr>"
      and key = "Name DEFAULT_CLIENT" and parent = "Root ROOT_WITH_EMPTY_PROJECT"
      and k = "Name DEFAULT_PROJECT"
      and child = "Project \<lparr>project_name = DEFAULT_PROJECT, clients = []\<rparr>"
      and k' = "Name DEFAULT_CLIENT"]
    getitem_resolves [where r = ROOT_WITH_TWO_CLIENTS
      and loc = "[Name DEFAULT_PROJECT, Name ''x'']" and n = "Client CLIENT_X"
      and key = "Num 0" and parent = "Root ROOT_WITH_TWO_CLIENTS"
      and k = "Name DEFAULT_PROJECT"
      and child = "Project \<lparr>project_name = DEFAULT_PROJECT,
           clients = [(client_name CLIENT_X, CLIENT_X), (client_name CLIENT_Y, CLIENT_Y)]\<rparr>"
      and k' = "Name ''x''"]
  by (simp add: ROOT_WITH_EMPTY_PROJECT_def ROOT_WITH_TWO_CLIENTS_def CLIENT_X_def
      CLIENT_Y_def DEFAULT_PROJECT_def DEFAULT_CLIENT_def)

text \<open>
  Claim C8. Whatever the clock reads, the example tree of the test is built without an
  error, its trial and its split started and ended with SUCCESS; indexing its root with
  the full location returns exactly the example's \<open>MetricResults\<close> node, and the location
  has length 6.
\<close>

theorem end_to_end_example:
  "\<exists>root trial split.
     SOME_ROOT_DATACLASS t0 t1 t2 t3 = Inr root \<and>
     SOME_TRIAL_DATACLASS t0 t1 t2 t3 = Inr trial \<and> status trial = SUCCESS \<and>
     SOME_TRIAL_SPLIT_DATACLASS t0 t1 = Inr split \<and> status split = SUCCESS \<and>
     getitem (Root root) SOME_FULL_SCOPED_LOCATION
       = Inr (MetricResults SOME_METRIC_RESULTS_DATACLASS) \<and>
     length SOME_FULL_SCOPED_LOCATION = 6"
  by (simp add: SOME_ROOT_DATACLASS_def SOME_PROJECT_DATACLASS_def SOME_CLIENT_DATACLASS_def
      SOME_ROUND_DATACLASS_def SOME_TRIAL_DATACLASS_def SOME_TRIAL_SPLIT_DATACLASS_def
      SOME_METRIC_RESULTS_DATACLASS_def SOME_FULL_SCOPED_LOCATION_def SOME_METRIC_NAME_def
      DEFAULT_PROJECT_def DEFAULT_CLIENT_def start_then_end_def start_def end_with_def)

end
